theory Spec2Isabelle
  imports Complex_Main
begin

section \<open>The batch queue of \<^verbatim>\<open>src/batching/batchqueue.py\<close>\<close>

text \<open>
  The module holds the decorator \<^verbatim>\<open>rate_limited\<close> and the class \<^verbatim>\<open>BatchQueue\<close>
  with the methods \<^verbatim>\<open>__init__\<close>, \<^verbatim>\<open>call_back\<close>, \<^verbatim>\<open>add\<close> and \<^verbatim>\<open>execute\<close>.

  What the module does to the outside is recorded as a list of events, in the order in
  which the statements run: \<^verbatim>\<open>time.sleep(d)\<close>, the call \<^verbatim>\<open>batch.execute(http=...)\<close>
  of the \<^verbatim>\<open>BatchHttpRequest\<close> that was filled by \<^verbatim>\<open>batch.add\<close> (the batch is the
  ordered list of the pairs added to it), and the call of a caller's callback.
  \<^verbatim>\<open>BatchHttpRequest\<close>, the callbacks, \<^verbatim>\<open>time\<close> and \<^verbatim>\<open>uuid\<close> are not part of the
  module. The call \<^verbatim>\<open>batch.execute\<close> is the boundary to the transport: it is an event,
  and the responses of a batch reach the module afterwards, as calls of \<^verbatim>\<open>call_back\<close>
  (the transport of the specification delivers them asynchronously). The readings of
  \<^verbatim>\<open>time.clock()\<close> are given by a function \<open>clk\<close> from the number of the reading
  to its value, with no assumption on how they grow, and the string
  \<^verbatim>\<open>str(uuid.uuid4())\<close> is an argument. Python floats are modelled as reals.
\<close>

subsection \<open>Data\<close>

type_synonym request_id = string

datatype py_error = KeyError request_id | ZeroDivisionError

datatype ('req, 'cb, 'resp, 'exc) event =
    Sleep real
  | Submit "('req \<times> request_id) list"
  | Invoke 'cb request_id 'resp 'exc

text \<open>The attributes set by \<^verbatim>\<open>__init__\<close>.\<close>

record ('req, 'cb) BatchQueue =
  quota :: int
  call_backs :: "request_id \<rightharpoonup> 'cb"
  queue :: "('req \<times> request_id) list"
  count :: int
  start :: real

text \<open>
  \<^verbatim>\<open>@rate_limited(1)\<close> runs once, when the class body is executed, so there is one list
  \<^verbatim>\<open>last_time_called\<close> for the method \<^verbatim>\<open>execute\<close> of the class, whatever the
  instance it is called on. \<open>clock_calls\<close> counts the readings of \<^verbatim>\<open>time.clock()\<close>
  taken so far.
\<close>

record proc =
  last_time_called :: real
  clock_calls :: nat

text \<open>
  The result of a method call: the cell of the rate limiter, the instance, the events
  of the call, and the exception that left the call, if any.
\<close>

record ('req, 'cb, 'resp, 'exc) outcome =
  limiter :: proc
  self :: "('req, 'cb) BatchQueue"
  events :: "('req, 'cb, 'resp, 'exc) event list"
  raised :: "py_error option"

subsection \<open>\<^verbatim>\<open>rate_limited\<close>\<close>

definition decorate :: proc where
  "decorate = \<lparr>last_time_called = 0, clock_calls = 0\<rparr>"

definition rate_limited_function ::
  "real \<Rightarrow> (nat \<Rightarrow> real) \<Rightarrow> ('s \<Rightarrow> 's \<times> ('req, 'cb, 'resp, 'exc) event list) \<Rightarrow>
     proc \<Rightarrow> 's \<Rightarrow> proc \<times> 's \<times> ('req, 'cb, 'resp, 'exc) event list" where
  "rate_limited_function min_interval clk func pr s =
     (let elapsed = clk (clock_calls pr) - last_time_called pr;
          left_to_wait = min_interval - elapsed;
          slept = (if left_to_wait > 0 then [Sleep left_to_wait] else []);
          (s', evs) = func s
      in (\<lparr>last_time_called = clk (clock_calls pr + 1), clock_calls = clock_calls pr + 2\<rparr>,
          s', slept @ evs))"

text \<open>
  \<^verbatim>\<open>rate_limited(max_per_second)\<close> computes \<^verbatim>\<open>min_interval = 1.0 / float(max_per_second)\<close>,
  which raises \<^verbatim>\<open>ZeroDivisionError\<close> for 0, and returns the decorator; applied to a
  function, the decorator gives \<open>rate_limited_function\<close> with that interval.
\<close>

definition rate_limited ::
  "real \<Rightarrow>
     py_error + ((nat \<Rightarrow> real) \<Rightarrow> ('s \<Rightarrow> 's \<times> ('req, 'cb, 'resp, 'exc) event list) \<Rightarrow>
       proc \<Rightarrow> 's \<Rightarrow> proc \<times> 's \<times> ('req, 'cb, 'resp, 'exc) event list)" where
  "rate_limited max_per_second =
     (if max_per_second = 0 then Inl ZeroDivisionError
      else Inr (rate_limited_function (1 / max_per_second)))"

subsection \<open>\<^verbatim>\<open>BatchQueue\<close>\<close>

definition init :: "int \<Rightarrow> real \<Rightarrow> ('req, 'cb) BatchQueue" where
  "init q t = \<lparr>quota = q, call_backs = Map.empty, queue = [], count = 0, start = t\<rparr>"

text \<open>
  The loop of \<^verbatim>\<open>execute\<close>: \<^verbatim>\<open>for _ in range(self.quota)\<close>, left by \<^verbatim>\<open>break\<close> when
  \<^verbatim>\<open>qsize() == 0\<close>; otherwise the head of the queue is taken and added to the batch.
\<close>

fun execute_loop ::
  "nat \<Rightarrow> ('req \<times> request_id) list \<Rightarrow> ('req \<times> request_id) list \<Rightarrow>
     ('req \<times> request_id) list \<times> ('req \<times> request_id) list" where
  "execute_loop 0 q batch = (q, batch)"
| "execute_loop (Suc n) [] batch = ([], batch)"
| "execute_loop (Suc n) (x # q) batch = execute_loop n q (batch @ [x])"

definition execute_body ::
  "('req, 'cb) BatchQueue \<Rightarrow> ('req, 'cb) BatchQueue \<times> ('req, 'cb, 'resp, 'exc) event list" where
  "execute_body s =
     (let (q', batch) = execute_loop (nat (quota s)) (queue s) []
      in (s\<lparr>queue := q'\<rparr>, [Submit batch]))"

text \<open>\<^verbatim>\<open>execute\<close> as the class has it: the body under \<^verbatim>\<open>@rate_limited(1)\<close>,
  where \<^verbatim>\<open>min_interval = 1.0 / float(1)\<close>.\<close>

definition execute ::
  "(nat \<Rightarrow> real) \<Rightarrow> proc \<Rightarrow> ('req, 'cb) BatchQueue \<Rightarrow> ('req, 'cb, 'resp, 'exc) outcome" where
  "execute clk pr s =
     (let (pr', s', evs) = rate_limited_function (1 / 1) clk execute_body pr s
      in \<lparr>limiter = pr', self = s', events = evs, raised = None\<rparr>)"

text \<open>
  \<^verbatim>\<open>call_back\<close>: the counter, the flush when the counter is the quota, and then the
  lookup \<^verbatim>\<open>self.call_backs[request_id]\<close>, which raises \<^verbatim>\<open>KeyError\<close> for a missing key.
\<close>

definition call_back ::
  "(nat \<Rightarrow> real) \<Rightarrow> proc \<Rightarrow> ('req, 'cb) BatchQueue \<Rightarrow> request_id \<Rightarrow> 'resp \<Rightarrow> 'exc \<Rightarrow>
     ('req, 'cb, 'resp, 'exc) outcome" where
  "call_back clk pr s request_id response exception =
     (let s1 = s\<lparr>count := count s + 1\<rparr>;
          out = (if count s1 = quota s1 then execute clk pr (s1\<lparr>count := 0\<rparr>)
                 else \<lparr>limiter = pr, self = s1, events = [], raised = None\<rparr>)
      in case call_backs (self out) request_id of
           None \<Rightarrow> out\<lparr>raised := Some (KeyError request_id)\<rparr>
         | Some callback \<Rightarrow>
             out\<lparr>events := events out @ [Invoke callback request_id response exception]\<rparr>)"

text \<open>
  \<^verbatim>\<open>add\<close>: \<^verbatim>\<open>not request_id\<close> holds for \<^verbatim>\<open>None\<close> and for the empty string. The
  method has no \<^verbatim>\<open>return\<close> statement, so a call evaluates to \<^verbatim>\<open>None\<close>: the second
  component of the result.
\<close>

definition effective_id :: "request_id option \<Rightarrow> request_id \<Rightarrow> request_id" where
  "effective_id request_id uuid4 =
     (case request_id of None \<Rightarrow> uuid4 | Some r \<Rightarrow> if r = [] then uuid4 else r)"

definition add ::
  "('req, 'cb) BatchQueue \<Rightarrow> 'req \<Rightarrow> 'cb \<Rightarrow> request_id option \<Rightarrow> request_id \<Rightarrow>
     ('req, 'cb) BatchQueue \<times> request_id option" where
  "add s request callback request_id uuid4 =
     (let rid = effective_id request_id uuid4
      in (s\<lparr>call_backs := (call_backs s)(rid \<mapsto> callback),
             queue := queue s @ [(request, rid)]\<rparr>, None))"

subsection \<open>Sequences of calls on one instance\<close>

text \<open>
  A call of one of the three methods, with its arguments. \<open>step\<close> keeps what the call
  leaves behind: an exception that leaves \<^verbatim>\<open>call_back\<close> does not undo the assignments
  made before it.
\<close>

datatype ('req, 'cb, 'resp, 'exc) call =
    Add 'req 'cb "request_id option" request_id
  | Execute
  | CallBack request_id 'resp 'exc

fun step ::
  "(nat \<Rightarrow> real) \<Rightarrow> proc \<times> ('req, 'cb) BatchQueue \<Rightarrow> ('req, 'cb, 'resp, 'exc) call \<Rightarrow>
     proc \<times> ('req, 'cb) BatchQueue" where
  "step clk (pr, s) (Add request callback request_id uuid4) =
     (pr, fst (add s request callback request_id uuid4))"
| "step clk (pr, s) Execute =
     (let out = (execute clk pr s :: ('req, 'cb, 'resp, 'exc) outcome)
      in (limiter out, self out))"
| "step clk (pr, s) (CallBack request_id response exception) =
     (let out = call_back clk pr s request_id response exception
      in (limiter out, self out))"

fun run ::
  "(nat \<Rightarrow> real) \<Rightarrow> proc \<times> ('req, 'cb) BatchQueue \<Rightarrow> ('req, 'cb, 'resp, 'exc) call list \<Rightarrow>
     proc \<times> ('req, 'cb) BatchQueue" where
  "run clk ps [] = ps"
| "run clk ps (c # cs) = run clk (step clk ps c) cs"

text \<open>\<open>add_all\<close> is a sequence of \<^verbatim>\<open>add\<close> calls, each with its arguments and with the
  string that \<^verbatim>\<open>str(uuid.uuid4())\<close> gives in that call.\<close>

fun add_all ::
  "('req, 'cb) BatchQueue \<Rightarrow> ('req \<times> 'cb \<times> request_id option \<times> request_id) list \<Rightarrow>
     ('req, 'cb) BatchQueue" where
  "add_all s [] = s"
| "add_all s ((request, callback, request_id, uuid4) # rest) =
     add_all (fst (add s request callback request_id uuid4)) rest"

text \<open>The batches handed to \<^verbatim>\<open>batch.execute\<close> in a list of events, in order.\<close>

fun submitted :: "('req, 'cb, 'resp, 'exc) event list \<Rightarrow> ('req \<times> request_id) list list" where
  "submitted [] = []"
| "submitted (Submit batch # es) = batch # submitted es"
| "submitted (Sleep d # es) = submitted es"
| "submitted (Invoke callback request_id response exception # es) = submitted es"

subsection \<open>Several instances in one process\<close>

text \<open>
  The instances of the class live at addresses; the cell of \<^verbatim>\<open>execute\<close>'s rate limiter
  belongs to the class. \<open>execute_on\<close> is \<^verbatim>\<open>execute\<close> called on the instance at an
  address; there is no result for an address that holds no instance.
\<close>

record ('req, 'cb) process =
  execute_cell :: proc
  instances :: "nat \<rightharpoonup> ('req, 'cb) BatchQueue"

definition execute_on ::
  "(nat \<Rightarrow> real) \<Rightarrow> ('req, 'cb) process \<Rightarrow> nat \<Rightarrow>
     (('req, 'cb) process \<times> ('req, 'cb, 'resp, 'exc) event list) option" where
  "execute_on clk p a =
     (case instances p a of
        None \<Rightarrow> None
      | Some s \<Rightarrow>
          (let out = execute clk (execute_cell p) s
           in Some (\<lparr>execute_cell = limiter out, instances = (instances p)(a \<mapsto> self out)\<rparr>,
                    events out)))"

subsection \<open>The response handler in the order of the specification\<close>

text \<open>
  \<open>onResponse_spec\<close> follows the specification's sentence on \<^verbatim>\<open>onResponse\<close>, not the
  source: the counter is incremented, the callback is looked up (a missing id fails
  there) and invoked, and only then the counter is compared with the quota, reset and
  the flush invoked.
\<close>

definition onResponse_spec ::
  "(nat \<Rightarrow> real) \<Rightarrow> proc \<Rightarrow> ('req, 'cb) BatchQueue \<Rightarrow> request_id \<Rightarrow> 'resp \<Rightarrow> 'exc \<Rightarrow>
     ('req, 'cb, 'resp, 'exc) outcome" where
  "onResponse_spec clk pr s request_id response exception =
     (let s1 = s\<lparr>count := count s + 1\<rparr>
      in case call_backs s1 request_id of
           None \<Rightarrow> \<lparr>limiter = pr, self = s1, events = [], raised = Some (KeyError request_id)\<rparr>
         | Some callback \<Rightarrow>
             (let invoked = [Invoke callback request_id response exception]
              in if count s1 = quota s1
                 then (let out = execute clk pr (s1\<lparr>count := 0\<rparr>)
                       in out\<lparr>events := invoked @ events out\<rparr>)
                 else \<lparr>limiter = pr, self = s1, events = invoked, raised = None\<rparr>))"

text \<open>The callbacks called in a list of events, with their arguments, in order.\<close>

fun invoked ::
  "('req, 'cb, 'resp, 'exc) event list \<Rightarrow> ('cb \<times> request_id \<times> 'resp \<times> 'exc) list" where
  "invoked [] = []"
| "invoked (Invoke callback request_id response exception # es) =
     (callback, request_id, response, exception) # invoked es"
| "invoked (Sleep d # es) = invoked es"
| "invoked (Submit batch # es) = invoked es"

text \<open>The time spent in \<^verbatim>\<open>time.sleep\<close> in a list of events.\<close>

fun slept :: "('req, 'cb, 'resp, 'exc) event list \<Rightarrow> real" where
  "slept [] = 0"
| "slept (Sleep d # es) = d + slept es"
| "slept (Submit batch # es) = slept es"
| "slept (Invoke callback request_id response exception # es) = slept es"

subsection \<open>Sample inputs\<close>

text \<open>Two clocks: one reading a second later each time from 5 on, one a tenth later.\<close>

definition clock_5 :: "nat \<Rightarrow> real" where
  "clock_5 n = 5 + real n"

definition clock_tenths :: "nat \<Rightarrow> real" where
  "clock_tenths n = 5 + real n / 10"

text \<open>Three \<^verbatim>\<open>add\<close> calls: without an id, with the empty string, with the id \<^verbatim>\<open>c\<close>.\<close>

definition three_adds :: "(string \<times> string \<times> request_id option \<times> request_id) list" where
  "three_adds =
     [(''r1'', ''cb1'', None, ''u1''), (''r2'', ''cb2'', Some [], ''u2''),
      (''r3'', ''cb3'', Some ''c'', ''u3'')]"

text \<open>A queue of quota 1 after two \<^verbatim>\<open>add\<close> calls and one \<^verbatim>\<open>execute\<close>: the request
  \<^verbatim>\<open>a\<close> is submitted, the request \<^verbatim>\<open>b\<close> waits.\<close>

definition pipeline_calls :: "(string, string, string, string option) call list" where
  "pipeline_calls =
     [Add ''r1'' ''cb1'' (Some ''a'') ''u1'', Add ''r2'' ''cb2'' (Some ''b'') ''u2'', Execute]"

definition pipeline_state :: "proc \<times> (string, string) BatchQueue" where
  "pipeline_state = run clock_5 (decorate, init 1 0) pipeline_calls"

text \<open>A process with two fresh queues, and the same process after \<^verbatim>\<open>execute\<close> on the
  first at the readings 5 and 5.1, and after \<^verbatim>\<open>execute\<close> on the second at 5.2 and 5.3.\<close>

definition two_queues :: "(string, string) process" where
  "two_queues = \<lparr>execute_cell = decorate, instances = [0 \<mapsto> init 10 0, 1 \<mapsto> init 10 0]\<rparr>"

definition two_queues_after :: "(string, string) process" where
  "two_queues_after =
     \<lparr>execute_cell = \<lparr>last_time_called = 51 / 10, clock_calls = 2\<rparr>,
      instances = [0 \<mapsto> init 10 0, 1 \<mapsto> init 10 0]\<rparr>"

definition two_queues_later :: "(string, string) process" where
  "two_queues_later =
     \<lparr>execute_cell = \<lparr>last_time_called = 53 / 10, clock_calls = 4\<rparr>,
      instances = [0 \<mapsto> init 10 0, 1 \<mapsto> init 10 0]\<rparr>"

text \<open>The scenario of quota 2: three requests, a flush, and the response for the first.\<close>

definition scenario_calls :: "(string, string, string, string option) call list" where
  "scenario_calls =
     [Add ''r1'' ''cb1'' (Some ''a'') ''u1'', Add ''r2'' ''cb2'' (Some ''b'') ''u2'',
      Add ''r3'' ''cb3'' (Some ''c'') ''u3'', Execute, CallBack ''a'' ''ok'' None]"

section \<open>What the methods compute\<close>

lemma rate_limited_one: "rate_limited 1 = Inr (rate_limited_function (1 / 1))"
  by (simp add: rate_limited_def)

lemma execute_loop_eq: "execute_loop n q batch = (drop n q, batch @ take n q)"
  by (induction n q batch rule: execute_loop.induct) simp_all

lemma execute_self:
  "self (execute clk pr s) = s\<lparr>queue := drop (nat (quota s)) (queue s)\<rparr>"
  by (simp add: execute_def rate_limited_function_def execute_body_def execute_loop_eq Let_def)

lemma execute_events:
  "events (execute clk pr s) =
     (if 1 - (clk (clock_calls pr) - last_time_called pr) > 0
      then [Sleep (1 - (clk (clock_calls pr) - last_time_called pr))] else [])
     @ [Submit (take (nat (quota s)) (queue s))]"
  by (simp add: execute_def rate_limited_function_def execute_body_def execute_loop_eq Let_def)

lemma execute_limiter:
  "limiter (execute clk pr s) =
     \<lparr>last_time_called = clk (clock_calls pr + 1), clock_calls = clock_calls pr + 2\<rparr>"
  by (simp add: execute_def rate_limited_function_def execute_body_def execute_loop_eq Let_def)

lemma execute_raised: "raised (execute clk pr s) = None"
  by (simp add: execute_def rate_limited_function_def execute_body_def execute_loop_eq Let_def)

lemma execute_submitted:
  "submitted (events (execute clk pr s)) = [take (nat (quota s)) (queue s)]"
  by (simp add: execute_events)

lemma execute_invoked: "invoked (events (execute clk pr s)) = []"
  by (simp add: execute_events)

lemma submitted_append: "submitted (xs @ ys) = submitted xs @ submitted ys"
  by (induction xs rule: submitted.induct) simp_all

lemma invoked_append: "invoked (xs @ ys) = invoked xs @ invoked ys"
  by (induction xs rule: invoked.induct) simp_all

lemma call_back_self:
  "self (call_back clk pr s request_id response exception) =
     (if count s + 1 = quota s
      then s\<lparr>count := 0, queue := drop (nat (quota s)) (queue s)\<rparr>
      else s\<lparr>count := count s + 1\<rparr>)"
  by (simp add: call_back_def Let_def execute_self split: option.splits)

lemma call_back_limiter:
  "limiter (call_back clk pr s request_id response exception) =
     (if count s + 1 = quota s
      then \<lparr>last_time_called = clk (clock_calls pr + 1), clock_calls = clock_calls pr + 2\<rparr>
      else pr)"
  by (simp add: call_back_def Let_def execute_limiter split: option.splits)

lemma call_back_events:
  "events (call_back clk pr s request_id response exception) =
     (if count s + 1 = quota s then events (execute clk pr (s\<lparr>count := 0\<rparr>)) else [])
     @ (case call_backs s request_id of
          None \<Rightarrow> []
        | Some callback \<Rightarrow> [Invoke callback request_id response exception])"
  by (simp add: call_back_def Let_def execute_self split: option.splits)

lemma call_back_raised:
  "raised (call_back clk pr s request_id response exception) =
     (case call_backs s request_id of
        None \<Rightarrow> Some (KeyError request_id)
      | Some callback \<Rightarrow> None)"
  by (simp add: call_back_def Let_def execute_self execute_raised split: option.splits)

lemma add_state:
  "fst (add s request callback request_id uuid4) =
     s\<lparr>call_backs := (call_backs s)(effective_id request_id uuid4 \<mapsto> callback),
       queue := queue s @ [(request, effective_id request_id uuid4)]\<rparr>"
  by (simp add: add_def Let_def)

lemma add_all_queue:
  "queue (add_all s calls) =
     queue s @ map (\<lambda>(request, callback, request_id, uuid4).
                      (request, effective_id request_id uuid4)) calls"
  by (induction s calls rule: add_all.induct) (simp_all add: add_state)

lemma add_all_quota: "quota (add_all s calls) = quota s"
  by (induction s calls rule: add_all.induct) (simp_all add: add_state)

lemma step_quota: "quota (snd (step clk ps c)) = quota (snd ps)"
  by (cases ps; cases c) (simp_all add: add_state execute_self call_back_self Let_def)

lemma step_count:
  assumes "0 \<le> count (snd ps)" and "count (snd ps) < quota (snd ps)"
  shows "0 \<le> count (snd (step clk ps c))
       \<and> count (snd (step clk ps c)) < quota (snd (step clk ps c))"
  using assms
  by (cases ps; cases c) (auto simp add: add_state execute_self call_back_self Let_def)

lemma run_count:
  assumes "0 \<le> count (snd ps)" and "count (snd ps) < quota (snd ps)"
  shows "quota (snd (run clk ps cs)) = quota (snd ps)
       \<and> 0 \<le> count (snd (run clk ps cs)) \<and> count (snd (run clk ps cs)) < quota (snd ps)"
  using assms
proof (induction cs arbitrary: ps)
  case Nil
  then show ?case by simp
next
  case (Cons c cs)
  have "0 \<le> count (snd (step clk ps c))"
    and "count (snd (step clk ps c)) < quota (snd (step clk ps c))"
    using step_count [OF Cons.prems, of clk c] by simp_all
  from Cons.IH [OF this] show ?case by (simp add: step_quota)
qed

lemma pipeline_state_eq:
  "pipeline_state =
     (\<lparr>last_time_called = 6, clock_calls = 2\<rparr>,
      \<lparr>quota = 1, call_backs = [''a'' \<mapsto> ''cb1'', ''b'' \<mapsto> ''cb2''],
       queue = [(''r2'', ''b'')], count = 0, start = 0\<rparr>)"
  by (simp add: pipeline_state_def pipeline_calls_def decorate_def init_def clock_5_def
      add_state effective_id_def execute_self execute_limiter Let_def)

section \<open>The claims\<close>

text \<open>
  C1. For every quota \<open>Q \<ge> 1\<close> and every sequence of \<open>N\<close> \<^verbatim>\<open>add\<close> calls on a new
  queue followed by one \<^verbatim>\<open>execute\<close>, the batch handed to \<^verbatim>\<open>batch.execute\<close> holds
  the first \<open>min N Q\<close> requests in the order in which they were added, each under the id
  it was queued with, and the other \<open>max (N - Q) 0\<close> requests stay in the queue, in order.
\<close>

theorem execute_after_adds:
  assumes "1 \<le> Q"
  shows "let items = map (\<lambda>(request, callback, request_id, uuid4).
                             (request, effective_id request_id uuid4)) calls;
             out = (execute clk pr (add_all (init Q t) calls) :: ('req, 'cb, 'resp, 'exc) outcome)
         in submitted (events out) = [take (nat Q) items]
          \<and> int (length (take (nat Q) items)) = min (int (length calls)) Q
          \<and> queue (self out) = drop (nat Q) items
          \<and> int (length (queue (self out))) = max (int (length calls) - Q) 0"
  using assms
  by (auto simp add: Let_def execute_self execute_submitted add_all_queue add_all_quota init_def)

text \<open>Quota 2 and three requests: the first two are submitted, the third waits.\<close>

theorem execute_after_adds_witness:
  "(1 :: int) \<le> 2
   \<and> submitted (events (execute clock_5 decorate (add_all (init 2 0) three_adds)
        :: (string, string, string, string option) outcome))
       = [[(''r1'', ''u1''), (''r2'', ''u2'')]]
   \<and> queue (self (execute clock_5 decorate (add_all (init 2 0) three_adds)
        :: (string, string, string, string option) outcome))
       = [(''r3'', ''c'')]"
proof -
  have h: "(1 :: int) \<le> 2" by simp
  show ?thesis
    using h execute_after_adds [OF h, of three_adds clock_5 decorate 0,
        where ?'resp = string and ?'exc = "string option"]
    by (simp add: Let_def three_adds_def effective_id_def)
qed

text \<open>
  C2 (amended). For every state in which the request queue is empty, \<^verbatim>\<open>execute\<close>
  dequeues nothing and raises no error, and it still calls \<^verbatim>\<open>batch.execute\<close> once,
  with a batch that holds no request: the call is not guarded by the number of requests
  taken from the queue.
\<close>

theorem execute_empty_queue:
  assumes "queue s = []"
  shows "let out = (execute clk pr s :: ('req, 'cb, 'resp, 'exc) outcome)
         in self out = s \<and> submitted (events out) = [[]] \<and> raised out = None"
  using assms by (simp add: Let_def execute_self execute_submitted execute_raised)

theorem execute_empty_queue_witness:
  "queue (init 10 0 :: (string, string) BatchQueue) = []
   \<and> self (execute clock_5 decorate (init 10 0) :: (string, string, string, string option) outcome)
       = init 10 0
   \<and> submitted (events (execute clock_5 decorate (init 10 0 :: (string, string) BatchQueue)
        :: (string, string, string, string option) outcome)) = [[]]"
proof -
  have h: "queue (init 10 0 :: (string, string) BatchQueue) = []" by (simp add: init_def)
  show ?thesis
    using h execute_empty_queue [OF h, of clock_5 decorate,
        where ?'resp = string and ?'exc = "string option"]
    by (simp add: Let_def)
qed

text \<open>On a new queue, which is empty, the transport is called, with the empty batch.\<close>

theorem execute_empty_queue_counterexample:
  "queue (init 10 0 :: (string, string) BatchQueue) = []
   \<and> events (execute clock_5 decorate (init 10 0 :: (string, string) BatchQueue))
       = [Submit [] :: (string, string, string, string option) event]"
  by (simp add: execute_events decorate_def clock_5_def init_def)

text \<open>
  C3 (amended). For every response delivery, \<^verbatim>\<open>call_back\<close> first increments the
  counter; then, if the counter equals the quota, it resets the counter to 0 and runs
  \<^verbatim>\<open>execute\<close>; and only after that it looks the callback up and calls it with
  \<open>(id, response, error)\<close>. So the events of the flush, with its one submitted batch,
  come before the call of the callback.
\<close>

theorem call_back_order:
  "let out = call_back clk pr s request_id response exception
   in events out =
        (if count s + 1 = quota s then events (execute clk pr (s\<lparr>count := 0\<rparr>)) else [])
        @ (case call_backs s request_id of
             None \<Rightarrow> []
           | Some callback \<Rightarrow> [Invoke callback request_id response exception])
    \<and> submitted (events out) =
        (if count s + 1 = quota s then [take (nat (quota s)) (queue s)] else [])
    \<and> count (self out) = (if count s + 1 = quota s then 0 else count s + 1)"
  by (simp add: Let_def call_back_events call_back_self submitted_append execute_submitted
      split: option.splits)

theorem call_back_order_witness:
  "events (call_back clock_5 (fst pipeline_state) (snd pipeline_state) ''a'' ''ok'' None)
     = [Submit [(''r2'', ''b'')], Invoke ''cb1'' ''a'' ''ok'' (None :: string option)]
   \<and> count (self (call_back clock_5 (fst pipeline_state) (snd pipeline_state)
        ''a'' ''ok'' (None :: string option))) = 0"
  using call_back_order [of clock_5 "fst pipeline_state" "snd pipeline_state" "''a''" "''ok''"
      "None :: string option"]
  by (simp add: Let_def pipeline_state_eq execute_events clock_5_def)

text \<open>With quota 1, one request submitted and one waiting, the response for the first
  makes the code submit the second request before it calls the callback of the first;
  in the order of the specification the callback would come first.\<close>

theorem call_back_order_counterexample:
  "events (call_back clock_5 (fst pipeline_state) (snd pipeline_state) ''a'' ''ok'' None)
     = [Submit [(''r2'', ''b'')], Invoke ''cb1'' ''a'' ''ok'' (None :: string option)]
   \<and> events (onResponse_spec clock_5 (fst pipeline_state) (snd pipeline_state) ''a'' ''ok'' None)
     = [Invoke ''cb1'' ''a'' ''ok'' (None :: string option), Submit [(''r2'', ''b'')]]"
  by (simp add: call_back_events onResponse_spec_def Let_def pipeline_state_eq execute_events
      clock_5_def)

text \<open>
  C4 (amended). The last-call timestamp of the rate limiter is one cell that belongs to
  the method \<^verbatim>\<open>execute\<close> of the class and is shared by all \<^verbatim>\<open>BatchQueue\<close> instances
  of the process. For two distinct instances, \<^verbatim>\<open>execute\<close> on one leaves the attributes
  of the other (queue, callbacks, counter, quota) unchanged, but it is paced against the
  shared timestamp and overwrites it with the clock reading taken after its submission,
  so the next \<^verbatim>\<open>execute\<close> of any instance is paced against that reading.
\<close>

theorem execute_on_shared_cell:
  assumes "instances p a = Some s" and "b \<noteq> a"
  shows "\<exists>p'. execute_on clk p a =
                 Some (p',
                   (if 1 - (clk (clock_calls (execute_cell p)) - last_time_called (execute_cell p)) > 0
                    then [Sleep (1 - (clk (clock_calls (execute_cell p))
                                       - last_time_called (execute_cell p)))]
                    else [])
                   @ [Submit (take (nat (quota s)) (queue s)) :: ('req, 'cb, 'resp, 'exc) event])
            \<and> instances p' b = instances p b
            \<and> last_time_called (execute_cell p') = clk (clock_calls (execute_cell p) + 1)
            \<and> clock_calls (execute_cell p') = clock_calls (execute_cell p) + 2"
  using assms
  by (simp add: execute_on_def Let_def execute_events execute_limiter)

theorem execute_on_shared_cell_witness:
  "instances two_queues 0 = Some (init 10 0) \<and> (1 :: nat) \<noteq> 0
   \<and> (\<exists>p'. execute_on clock_tenths two_queues 0
              = Some (p', [Submit [] :: (string, string, string, string option) event])
          \<and> instances p' 1 = instances two_queues 1
          \<and> last_time_called (execute_cell p') = 51 / 10)"
proof -
  have h: "instances two_queues 0 = Some (init 10 0)" by (simp add: two_queues_def)
  have d: "(1 :: nat) \<noteq> 0" by simp
  show ?thesis
    using h d execute_on_shared_cell [OF h d, of clock_tenths,
        where ?'resp = string and ?'exc = "string option"]
    by (auto simp add: two_queues_def decorate_def clock_tenths_def init_def)
qed

text \<open>Two new queues: \<^verbatim>\<open>execute\<close> on the first changes the timestamp from 0 to 5.1,
  and \<^verbatim>\<open>execute\<close> on the second, at the reading 5.2, then sleeps for 0.9 seconds; at
  the same reading it does not sleep when the first queue has not been flushed.\<close>

theorem execute_on_shared_cell_counterexample:
  "execute_on clock_tenths two_queues 0 =
     Some (two_queues_after, [Submit [] :: (string, string, string, string option) event])
   \<and> last_time_called (execute_cell two_queues) \<noteq> last_time_called (execute_cell two_queues_after)
   \<and> execute_on clock_tenths two_queues_after 1 =
       Some (two_queues_later,
             [Sleep (9 / 10), Submit [] :: (string, string, string, string option) event])
   \<and> execute_on clock_tenths
        (two_queues\<lparr>execute_cell := \<lparr>last_time_called = 0, clock_calls = 2\<rparr>\<rparr>) 1 =
       Some (two_queues_later, [Submit [] :: (string, string, string, string option) event])"
  by (simp add: execute_on_def Let_def execute_events execute_limiter execute_self
      two_queues_def two_queues_after_def two_queues_later_def decorate_def clock_tenths_def
      init_def fun_upd_twist)

text \<open>
  C5 (amended). If a response arrives for an id that is not a key of \<^verbatim>\<open>call_backs\<close>,
  \<^verbatim>\<open>call_back\<close> raises \<^verbatim>\<open>KeyError\<close> for that id to its caller, after the counter has
  been incremented and, when it reached the quota, reset and the flush made; no callback
  is called. The condition is not passed over in silence, and the method does not catch
  it: the exception leaves \<^verbatim>\<open>call_back\<close>.
\<close>

theorem call_back_unknown_id:
  assumes "call_backs s request_id = None"
  shows "let out = call_back clk pr s request_id response exception
         in raised out = Some (KeyError request_id)
          \<and> invoked (events out) = []
          \<and> count (self out) = (if count s + 1 = quota s then 0 else count s + 1)
          \<and> submitted (events out) =
              (if count s + 1 = quota s then [take (nat (quota s)) (queue s)] else [])"
  using assms
  by (simp add: Let_def call_back_events call_back_self call_back_raised submitted_append
      invoked_append execute_submitted execute_invoked)

theorem call_back_unknown_id_witness:
  "call_backs (snd pipeline_state) ''ghost'' = None
   \<and> raised (call_back clock_5 (fst pipeline_state) (snd pipeline_state) ''ghost'' ''ok''
        (None :: string option)) = Some (KeyError ''ghost'')
   \<and> submitted (events (call_back clock_5 (fst pipeline_state) (snd pipeline_state) ''ghost''
        ''ok'' (None :: string option))) = [[(''r2'', ''b'')]]"
proof -
  have h: "call_backs (snd pipeline_state) ''ghost'' = None" by (simp add: pipeline_state_eq)
  show ?thesis
    using h call_back_unknown_id [OF h, of clock_5 "fst pipeline_state" "''ok''"
        "None :: string option"]
    by (simp add: Let_def pipeline_state_eq)
qed

text \<open>A response for an id that no \<^verbatim>\<open>add\<close> call has registered: the exception leaves
  \<^verbatim>\<open>call_back\<close>, and nothing else is produced.\<close>

theorem call_back_unknown_id_counterexample:
  "raised (call_back clock_5 decorate (init 2 0 :: (string, string) BatchQueue) ''ghost'' ''ok''
     (None :: string option)) = Some (KeyError ''ghost'')
   \<and> events (call_back clock_5 decorate (init 2 0 :: (string, string) BatchQueue) ''ghost'' ''ok''
     (None :: string option)) = []"
  by (simp add: call_back_raised call_back_events init_def)

text \<open>
  C6 (amended). For every \<^verbatim>\<open>add\<close> call whose request id is already a key of
  \<^verbatim>\<open>call_backs\<close>, no error is raised: the call overwrites the entry of that id with the
  new callback, leaves every other entry as it is, and appends the request to the queue
  under the same id.
\<close>

theorem add_duplicate_overwrites:
  assumes "call_backs s request_id = Some old" and "request_id \<noteq> []"
  shows "let s' = fst (add s request callback (Some request_id) uuid4)
         in call_backs s' = (call_backs s)(request_id \<mapsto> callback)
          \<and> queue s' = queue s @ [(request, request_id)]
          \<and> count s' = count s \<and> quota s' = quota s"
  using assms by (simp add: Let_def add_state effective_id_def)

theorem add_duplicate_overwrites_witness:
  "call_backs (snd pipeline_state) ''b'' = Some ''cb2'' \<and> ''b'' \<noteq> []
   \<and> call_backs (fst (add (snd pipeline_state) ''r9'' ''cb9'' (Some ''b'') ''u9'')) ''b''
       = Some ''cb9''
   \<and> queue (fst (add (snd pipeline_state) ''r9'' ''cb9'' (Some ''b'') ''u9''))
       = [(''r2'', ''b''), (''r9'', ''b'')]"
proof -
  have h: "call_backs (snd pipeline_state) ''b'' = Some ''cb2''" by (simp add: pipeline_state_eq)
  have n: "''b'' \<noteq> []" by simp
  show ?thesis
    using h n add_duplicate_overwrites [OF h n, of "''r9''" "''cb9''" "''u9''"]
    by (simp add: Let_def pipeline_state_eq)
qed

text \<open>Two \<^verbatim>\<open>add\<close> calls with the id \<^verbatim>\<open>a\<close>: the second callback replaces the first,
  and both requests are queued.\<close>

theorem add_duplicate_overwrites_counterexample:
  "call_backs (fst (add (fst (add (init 2 0) ''r1'' ''cb1'' (Some ''a'') ''u1''))
                      ''r2'' ''cb2'' (Some ''a'') ''u2'')) ''a'' = Some ''cb2''
   \<and> queue (fst (add (fst (add (init 2 0) ''r1'' ''cb1'' (Some ''a'') ''u1''))
                   ''r2'' ''cb2'' (Some ''a'') ''u2''))
       = [(''r1'', ''a''), (''r2'', ''a'')]"
  by (simp add: add_state effective_id_def init_def)

text \<open>
  C7. For a quota \<open>Q \<ge> 1\<close>, the counter is an integer in \<open>[0, Q)\<close> in every state that
  a new queue reaches by calls of \<^verbatim>\<open>add\<close>, \<^verbatim>\<open>execute\<close> and \<^verbatim>\<open>call_back\<close>, so it never
  exceeds the quota; and the \<^verbatim>\<open>call_back\<close> in which the counter reaches the quota
  resets it to 0 and flushes exactly once, while any other \<^verbatim>\<open>call_back\<close> adds 1 to the
  counter and does not flush.
\<close>

theorem counter_below_quota:
  assumes "1 \<le> Q"
  shows "let s = snd (run clk (pr, init Q t) calls);
             out = call_back clk (fst (run clk (pr, init Q t) calls)) s request_id response exception
         in quota s = Q \<and> 0 \<le> count s \<and> count s < Q
          \<and> (if count s + 1 = Q
              then count (self out) = 0 \<and> length (submitted (events out)) = 1
              else count (self out) = count s + 1 \<and> submitted (events out) = [])"
proof -
  have "0 \<le> count (snd (pr, init Q t :: ('req, 'cb) BatchQueue))"
    and "count (snd (pr, init Q t :: ('req, 'cb) BatchQueue))
           < quota (snd (pr, init Q t :: ('req, 'cb) BatchQueue))"
    using assms by (simp_all add: init_def)
  from run_count [OF this, of clk calls]
  show ?thesis
    by (simp add: Let_def init_def call_back_self call_back_events submitted_append
        execute_submitted split: option.splits)
qed

text \<open>Quota 2: after the response for the first request the counter is 1; the response
  for the second brings it to 2, so it is reset to 0 and the third request is submitted.\<close>

theorem counter_below_quota_witness:
  "(1 :: int) \<le> 2
   \<and> count (snd (run clock_5 (decorate, init 2 0) scenario_calls)) = 1
   \<and> count (self (call_back clock_5 (fst (run clock_5 (decorate, init 2 0) scenario_calls))
        (snd (run clock_5 (decorate, init 2 0) scenario_calls)) ''b'' ''ok''
        (None :: string option))) = 0
   \<and> submitted (events (call_back clock_5 (fst (run clock_5 (decorate, init 2 0) scenario_calls))
        (snd (run clock_5 (decorate, init 2 0) scenario_calls)) ''b'' ''ok''
        (None :: string option))) = [[(''r3'', ''c'')]]"
proof -
  have h: "(1 :: int) \<le> 2" by simp
  have r: "run clock_5 (decorate, init 2 0) scenario_calls =
     (\<lparr>last_time_called = 6, clock_calls = 2\<rparr>,
      \<lparr>quota = 2, call_backs = [''a'' \<mapsto> ''cb1'', ''b'' \<mapsto> ''cb2'', ''c'' \<mapsto> ''cb3''],
       queue = [(''r3'', ''c'')], count = 1, start = 0\<rparr>)"
    by (simp add: scenario_calls_def decorate_def init_def clock_5_def add_state effective_id_def
        execute_self execute_limiter call_back_self call_back_limiter Let_def)
  show ?thesis
    using h counter_below_quota [OF h, of clock_5 decorate 0 scenario_calls "''b''" "''ok''"
        "None :: string option"]
    by (simp add: Let_def r call_back_self call_back_events submitted_append execute_submitted)
qed

text \<open>
  C8. For a rate limiter configured with \<open>max_per_second\<close>, take two consecutive
  invocations of the wrapped function. The first leaves in \<^verbatim>\<open>last_time_called\<close> the
  clock reading taken when the wrapped operation completed. The second reads the clock
  when it is called; if less than \<open>1 / max_per_second\<close> has passed since that
  completion, it sleeps for exactly the remaining interval before the wrapped operation
  runs, and otherwise it does not sleep. So the wrapped operation starts, at the reading
  of the call plus the time slept, at least \<open>1 / max_per_second\<close> after the completion
  of the one before.
\<close>

theorem rate_limited_gap:
  assumes "rate_limited max_per_second = Inr wrapped"
  shows "let (pr1, s1, evs1) = wrapped clk func pr s;
             completed = clk (clock_calls pr + 1);
             called = clk (clock_calls pr1);
             remaining = 1 / max_per_second - (called - completed);
             blocked = (if called - completed < 1 / max_per_second
                        then [Sleep remaining :: ('req, 'cb, 'resp, 'exc) event] else []);
             (pr2, s2, evs2) = wrapped clk func pr1 s1
         in last_time_called pr1 = completed
          \<and> evs2 = blocked @ snd (func s1)
          \<and> s2 = fst (func s1)
          \<and> 1 / max_per_second \<le> (called + slept blocked) - completed"
proof -
  have w: "wrapped = rate_limited_function (1 / max_per_second)"
    using assms by (simp add: rate_limited_def split: if_splits)
  show ?thesis
    by (simp add: w rate_limited_function_def Let_def case_prod_beta)
qed

text \<open>Two calls per second, readings a tenth apart: the first invocation completes at
  5.1, the second is called at 5.2 and sleeps 0.4 before it submits.\<close>

theorem rate_limited_gap_witness:
  "rate_limited 2 = Inr (rate_limited_function (1 / 2)
      :: (nat \<Rightarrow> real) \<Rightarrow>
         ((string, string) BatchQueue \<Rightarrow>
            (string, string) BatchQueue \<times> (string, string, string, string option) event list) \<Rightarrow>
         proc \<Rightarrow> (string, string) BatchQueue \<Rightarrow>
         proc \<times> (string, string) BatchQueue \<times> (string, string, string, string option) event list)
   \<and> fst (rate_limited_function (1 / 2) clock_tenths
        (execute_body :: (string, string) BatchQueue \<Rightarrow>
            (string, string) BatchQueue \<times> (string, string, string, string option) event list)
        decorate (init 10 0))
       = \<lparr>last_time_called = 51 / 10, clock_calls = 2\<rparr>
   \<and> snd (snd (rate_limited_function (1 / 2) clock_tenths execute_body
        \<lparr>last_time_called = 51 / 10, clock_calls = 2\<rparr> (init 10 0)))
       = [Sleep (2 / 5), Submit [] :: (string, string, string, string option) event]
   \<and> (1 / 2 :: real) \<le> (clock_tenths 2 + 2 / 5) - clock_tenths 1"
proof -
  have h: "rate_limited 2 = Inr (rate_limited_function (1 / 2)
      :: (nat \<Rightarrow> real) \<Rightarrow>
         ((string, string) BatchQueue \<Rightarrow>
            (string, string) BatchQueue \<times> (string, string, string, string option) event list) \<Rightarrow>
         proc \<Rightarrow> (string, string) BatchQueue \<Rightarrow>
         proc \<times> (string, string) BatchQueue \<times> (string, string, string, string option) event list)"
    by (simp add: rate_limited_def)
  show ?thesis
    using h rate_limited_gap [OF h, of clock_tenths execute_body decorate "init 10 0"]
    by (simp add: Let_def case_prod_beta rate_limited_function_def execute_body_def
        decorate_def clock_tenths_def init_def execute_loop_eq)
qed

text \<open>
  C9. A call of \<^verbatim>\<open>call_back\<close> never removes an entry from \<^verbatim>\<open>call_backs\<close>: after every
  response delivery the registry is the one before it, so it still holds the entry of
  the delivered id, and every other entry is unchanged.
\<close>

theorem call_back_keeps_registry:
  "call_backs (self (call_back clk pr s request_id response exception)) = call_backs s"
  by (simp add: call_back_self)

theorem call_back_keeps_registry_witness:
  "call_backs (self (call_back clock_5 (fst pipeline_state) (snd pipeline_state) ''a'' ''ok''
     (None :: string option))) ''a'' = Some ''cb1''"
  using call_back_keeps_registry [of clock_5 "fst pipeline_state" "snd pipeline_state" "''a''"
      "''ok''" "None :: string option"]
  by (simp add: pipeline_state_eq)

text \<open>
  C10 (amended). For every \<^verbatim>\<open>add\<close> call with the empty string as \<^verbatim>\<open>request_id\<close>, the
  empty string is treated as an absent id: the generated id (a non-empty string) is the
  key under which the callback is registered and the id under which the request is
  queued, and the call stores no entry under the empty string. The call returns
  \<^verbatim>\<open>None\<close>, not the id.
\<close>

theorem add_empty_id:
  assumes "uuid4 \<noteq> []"
  shows "add s request callback (Some []) uuid4 = add s request callback None uuid4
       \<and> call_backs (fst (add s request callback (Some []) uuid4))
           = (call_backs s)(uuid4 \<mapsto> callback)
       \<and> queue (fst (add s request callback (Some []) uuid4)) = queue s @ [(request, uuid4)]
       \<and> snd (add s request callback (Some []) uuid4) = None
       \<and> ([] \<in> dom (call_backs (fst (add s request callback (Some []) uuid4)))
            \<longleftrightarrow> [] \<in> dom (call_backs s))"
  using assms by (auto simp add: add_def Let_def effective_id_def)

theorem add_empty_id_witness:
  "''u1'' \<noteq> []
   \<and> call_backs (fst (add (init 2 0) ''r1'' ''cb1'' (Some []) ''u1'')) ''u1'' = Some ''cb1''
   \<and> call_backs (fst (add (init 2 0) ''r1'' ''cb1'' (Some []) ''u1'')) [] = None
   \<and> queue (fst (add (init 2 0) ''r1'' ''cb1'' (Some []) ''u1'')) = [(''r1'', ''u1'')]"
proof -
  have h: "''u1'' \<noteq> []" by simp
  show ?thesis
    using h add_empty_id [OF h, of "init 2 0" "''r1''" "''cb1''"]
    by (auto simp add: init_def)
qed

text \<open>The value of the call is \<^verbatim>\<open>None\<close>, where the generated id is \<^verbatim>\<open>u1\<close>.\<close>

theorem add_empty_id_counterexample:
  "snd (add (init 2 0 :: (string, string) BatchQueue) ''r1'' ''cb1'' (Some []) ''u1'') = None
   \<and> snd (add (init 2 0 :: (string, string) BatchQueue) ''r1'' ''cb1'' (Some []) ''u1'')
       \<noteq> Some ''u1''"
  by (simp add: add_def Let_def)

end
